theory Spec2Isabelle
  imports Complex_Main "HOL-Library.Word"
begin

unbundle bit_operations_syntax

section \<open>Colours of the display driver\<close>

text \<open>
  The display takes 16-bit RGB565 colours (\<open>uint16_t\<close>). The named colours come from the
  header of the Adafruit ST7735 library, which the sketch includes; the values below are
  the ones of that header.
\<close>

type_synonym color = "16 word"

definition ST7735_BLACK :: color where "ST7735_BLACK = 0x0000"
definition ST7735_BLUE :: color where "ST7735_BLUE = 0x001F"
definition ST7735_RED :: color where "ST7735_RED = 0xF800"
definition ST7735_ORANGE :: color where "ST7735_ORANGE = 0xFC00"
definition ST7735_WHITE :: color where "ST7735_WHITE = 0xFFFF"

section \<open>Splash image: grey levels\<close>

text \<open>
  \<^verbatim>\<open>uint16_t gray_to_color(uint16_t v)\<close>. The operands of \<open>*\<close>, \<open>/\<close>, \<open><<\<close> and \<open>+\<close> are
  promoted to \<open>int\<close>; every intermediate value is non-negative and below \<open>2^16\<close>, and
  the results are stored back into \<open>uint16_t\<close>.
\<close>

definition gray_to_color :: "16 word \<Rightarrow> color" where
  "gray_to_color v0 =
     (let v = v0 AND 0xf;
          five_bit = (word_of_int (uint v * 31 div 15) :: 16 word);
          six_bit = (word_of_int (uint v * 63 div 15) :: 16 word)
      in word_of_int (push_bit 11 (uint five_bit) + push_bit 5 (uint six_bit) + uint five_bit))"

text \<open>The three channels of an RGB565 colour.\<close>

definition red565 :: "color \<Rightarrow> nat" where
  "red565 c = unat (drop_bit 11 c)"

definition green565 :: "color \<Rightarrow> nat" where
  "green565 c = unat (drop_bit 5 c AND 0x3f)"

definition blue565 :: "color \<Rightarrow> nat" where
  "blue565 c = unat (c AND 0x1f)"

section \<open>Readings\<close>

text \<open>
  A reading is a C \<open>float\<close>: an IEEE 754 single-precision value, given by its sign bit,
  its 8-bit biased exponent and its 23-bit fraction. Exponent 255 encodes the infinities
  (fraction zero) and the NaNs (fraction non-zero); exponent 0 encodes the zeros and the
  subnormal numbers.
\<close>

record float =
  sign :: bool
  exponent :: "8 word"
  fraction :: "23 word"

definition isnan :: "float \<Rightarrow> bool" where
  "isnan f \<longleftrightarrow> exponent f = 255 \<and> fraction f \<noteq> 0"

definition isinf :: "float \<Rightarrow> bool" where
  "isinf f \<longleftrightarrow> exponent f = 255 \<and> fraction f = 0"

definition significand :: "float \<Rightarrow> nat" where
  "significand f = (if exponent f = 0 then unat (fraction f) else 2 ^ 23 + unat (fraction f))"

text \<open>
  The absolute value of a finite float is \<open>significand * 2 ^ (max 1 exponent - 150)\<close>:
  here as a numerator and a denominator, and as an exact rational number.
\<close>

definition ratio :: "float \<Rightarrow> nat \<times> nat" where
  "ratio f =
     (let e = max 1 (unat (exponent f))
      in if 150 \<le> e then (significand f * 2 ^ (e - 150), 1)
         else (significand f, 2 ^ (150 - e)))"

definition magnitude :: "float \<Rightarrow> rat" where
  "magnitude f = of_nat (fst (ratio f)) / of_nat (snd (ratio f))"

definition valof :: "float \<Rightarrow> rat" where
  "valof f = (if sign f then - magnitude f else magnitude f)"

text \<open>
  \<^verbatim>\<open>x >= c\<close> for a reading \<open>x\<close> and a literal \<open>c\<close> (50, 90, 100, 115 and 2.5 are exact
  in binary floating point, so the conversion of the literal loses nothing). The
  comparison is false when \<open>x\<close> is a NaN.
\<close>

definition float_ge :: "float \<Rightarrow> rat \<Rightarrow> bool" where
  "float_ge x c \<longleftrightarrow> \<not> isnan x \<and> (if isinf x then \<not> sign x else c \<le> valof x)"

text \<open>The \<open>NAN\<close> macro: the positive quiet NaN.\<close>

definition NAN :: float where
  "NAN = \<lparr>sign = False, exponent = 255, fraction = 0x400000\<rparr>"

record Values =
  oil_temp :: float
  oil_press :: float
  water_temp :: float
  boost :: float
  rpm :: float
  volt :: float

definition Values_empty :: Values where
  "Values_empty =
     \<lparr>oil_temp = NAN, oil_press = NAN, water_temp = NAN, boost = NAN, rpm = NAN, volt = NAN\<rparr>"

section \<open>Formatting with \<open>sprintf\<close>\<close>

text \<open>
  \<open>sprintf\<close> belongs to the C library, not to the sketch. The conversion \<open>%w.pf\<close> is
  modelled after the C standard: an optional minus sign, the decimal digits of the value
  rounded to \<open>p\<close> places (round to nearest, ties to even, on the exact binary value, as
  the usual C libraries do), a decimal point only when \<open>p > 0\<close>, \<open>inf\<close> and \<open>nan\<close> for
  the special values, and blanks on the left up to the field width \<open>w\<close>.
\<close>

definition digit_char :: "nat \<Rightarrow> char" where
  "digit_char d = ''0123456789'' ! d"

function digits :: "nat \<Rightarrow> string" where
  "digits n = (if n < 10 then [digit_char n] else digits (n div 10) @ [digit_char (n mod 10)])"
  by pat_completeness auto
termination
proof (relation "measure id")
  show "wf (measure id)" by simp
next
  fix n :: nat
  assume "\<not> n < 10"
  then have "n div 10 < n" by simp
  then show "(n div 10, n) \<in> measure id" by simp
qed

text \<open>\<open>round_half_even n d\<close> is the fraction \<open>n / d\<close> rounded to the nearest integer.\<close>

definition round_half_even :: "nat \<Rightarrow> nat \<Rightarrow> nat" where
  "round_half_even n d =
     (let q = n div d; r = n mod d
      in if 2 * r < d then q else if d < 2 * r then q + 1 else if even q then q else q + 1)"

text \<open>\<open>fixed p n d\<close> is the fraction \<open>n / d\<close> in decimal notation with \<open>p\<close> places.\<close>

definition fixed :: "nat \<Rightarrow> nat \<Rightarrow> nat \<Rightarrow> string" where
  "fixed p n d =
     (let ds = digits (round_half_even (n * 10 ^ p) d);
          ds = replicate (Suc p - length ds) (CHR ''0'') @ ds;
          k = length ds - p
      in take k ds @ (if p = 0 then [] else CHR ''.'' # drop k ds))"

definition format_f :: "nat \<Rightarrow> nat \<Rightarrow> float \<Rightarrow> string" where
  "format_f w p x =
     (let body = (if sign x then ''-'' else []) @
                 (if isnan x then ''nan''
                  else if isinf x then ''inf''
                  else fixed p (fst (ratio x)) (snd (ratio x)))
      in replicate (w - length body) (CHR '' '') @ body)"

text \<open>
  \<^verbatim>\<open>char buf[10]\<close> holds nine characters and the terminating zero. \<open>sprintf\<close> does not
  know the size of its destination: a longer text is written past the end of the array,
  which is undefined behaviour. The model stops there with a fault. Otherwise the call
  returns the text now in the buffer and the number of characters written.
\<close>

datatype fault = BufferOverflow | IndexOutOfBounds

definition then_do :: "fault + 'a \<Rightarrow> ('a \<Rightarrow> fault + 'b) \<Rightarrow> fault + 'b" where
  "then_do m k = (case m of Inl e \<Rightarrow> Inl e | Inr x \<Rightarrow> k x)"

definition BUF_SIZE :: nat where
  "BUF_SIZE = 10"

definition sprintf :: "string \<Rightarrow> fault + string \<times> int" where
  "sprintf s = (if length s < BUF_SIZE then Inr (s, int (length s)) else Inl BufferOverflow)"

section \<open>Colour policy and error override\<close>

text \<open>The threshold ladders of \<open>draw_cells\<close>: each later test overrides the earlier ones.\<close>

definition oil_temp_color :: "float \<Rightarrow> color" where
  "oil_temp_color x =
     (let color = ST7735_BLUE;
          color = (if float_ge x 50 then ST7735_BLACK else color);
          color = (if float_ge x 100 then ST7735_ORANGE else color);
          color = (if float_ge x 115 then ST7735_RED else color)
      in color)"

definition oil_press_color :: "float \<Rightarrow> color" where
  "oil_press_color x =
     (let color = ST7735_BLACK;
          color = (if float_ge x (5 / 2) then ST7735_RED else color)
      in color)"

definition water_temp_color :: "float \<Rightarrow> color" where
  "water_temp_color x =
     (let color = ST7735_BLUE;
          color = (if float_ge x 50 then ST7735_BLACK else color);
          color = (if float_ge x 90 then ST7735_ORANGE else color);
          color = (if float_ge x 100 then ST7735_RED else color)
      in color)"

definition plain_color :: "float \<Rightarrow> color" where
  "plain_color x = ST7735_BLACK"

text \<open>
  One block of \<open>draw_cells\<close> up to its call of \<open>draw_cell\<close>, for the conversion \<open>%w.pf\<close>
  and the threshold ladder \<open>thr\<close>:
  \<^verbatim>\<open>
    int ret = sprintf(buf, "%w.pf", x);
    uint16_t color = thr(x);
    if (ret != w | isnan(x)) { sprintf(buf, "ERR"); color = ST7735_RED; }
  \<close>
  The result is the text in \<open>buf\<close> and the colour handed to \<open>draw_cell\<close>.
\<close>

definition format_cell :: "nat \<Rightarrow> nat \<Rightarrow> (float \<Rightarrow> color) \<Rightarrow> float \<Rightarrow> fault + string \<times> color" where
  "format_cell w p thr x =
     then_do (sprintf (format_f w p x)) (\<lambda>(buf, ret).
       let color = thr x in
       if ret \<noteq> int w \<or> isnan x
       then then_do (sprintf ''ERR'') (\<lambda>(buf, _). Inr (buf, ST7735_RED))
       else Inr (buf, color))"

definition cell_oil_temp :: "Values \<Rightarrow> fault + string \<times> color" where
  "cell_oil_temp d = format_cell 3 0 oil_temp_color (oil_temp d)"

definition cell_oil_press :: "Values \<Rightarrow> fault + string \<times> color" where
  "cell_oil_press d = format_cell 3 1 oil_press_color (oil_press d)"

definition cell_water_temp :: "Values \<Rightarrow> fault + string \<times> color" where
  "cell_water_temp d = format_cell 3 0 water_temp_color (water_temp d)"

definition cell_boost :: "Values \<Rightarrow> fault + string \<times> color" where
  "cell_boost d = format_cell 3 1 plain_color (boost d)"

definition cell_rpm :: "Values \<Rightarrow> fault + string \<times> color" where
  "cell_rpm d = format_cell 4 0 plain_color (rpm d)"

definition cell_volt :: "Values \<Rightarrow> fault + string \<times> color" where
  "cell_volt d = format_cell 4 1 plain_color (volt d)"

section \<open>The display and the background cache\<close>

text \<open>
  The display driver is outside the sketch; the model records the calls made to it, in
  order. The global \<open>bg_cache\<close> is the other piece of state.
\<close>

datatype tft_call =
    FillRect int int int int color
  | SetTextSize nat
  | SetTextColor color color
  | SetCursor int int
  | Print string

record state =
  bg_cache :: "color list"
  tft :: "tft_call list"

definition bg_cache_init :: "color list" where
  "bg_cache_init =
     [ST7735_BLACK, ST7735_BLACK, ST7735_BLACK, ST7735_BLACK, ST7735_BLACK, ST7735_BLACK]"

definition TXT_W :: int where "TXT_W = 6"
definition TXT_H :: int where "TXT_H = 8"

definition UNIT_DEG_C :: string where
  "UNIT_DEG_C = [CHR 0xF7, CHR ''C'']"

definition UNIT_BAR :: string where
  "UNIT_BAR = ''Bar''"

definition draw_bg :: "color \<Rightarrow> int \<Rightarrow> int \<Rightarrow> state \<Rightarrow> state" where
  "draw_bg bg pos_x pos_y s =
     (let w = 64;
          x = 64 * pos_x;
          (y, h) = (if pos_y = 0 then (0, 5 + 50)
                    else if pos_y = 1 then (55, 50)
                    else (105, 5 + 50))
      in s\<lparr>tft := tft s @ [FillRect x y w h bg]\<rparr>)"

text \<open>The cache slot of a grid position, \<^verbatim>\<open>pos_y*2+pos_x\<close>.\<close>

definition cache_index :: "int \<Rightarrow> int \<Rightarrow> int" where
  "cache_index pos_x pos_y = pos_y * 2 + pos_x"

text \<open>The text part of \<open>draw_cell\<close>: label, unit and value.\<close>

definition draw_text :: "string \<Rightarrow> string \<Rightarrow> string \<Rightarrow> color \<Rightarrow> int \<Rightarrow> int \<Rightarrow> tft_call list" where
  "draw_text unit val label bg pos_x pos_y =
     (let unit_len = int (length unit);
          val_len = int (length val);
          label_x = 64 * pos_x + 5;
          label_y = 50 * pos_y + 10;
          val_x = label_x;
          val_y = label_y + 14;
          unit_x = val_x + val_len * TXT_W * 2;
          unit_y = val_y + TXT_H - 1
      in [SetTextSize 1, SetTextColor ST7735_WHITE bg,
          SetCursor label_x label_y, Print label,
          SetCursor unit_x unit_y, Print unit,
          SetTextSize 2,
          SetCursor val_x val_y, Print val])"

text \<open>
  \<open>draw_cell\<close>. An index outside the array is undefined behaviour in C and a fault here.
\<close>

definition draw_cell :: "string \<Rightarrow> string \<Rightarrow> string \<Rightarrow> color \<Rightarrow> int \<Rightarrow> int \<Rightarrow> state \<Rightarrow> fault + state" where
  "draw_cell unit val label bg pos_x pos_y s =
     (let i = cache_index pos_x pos_y in
      if i < 0 \<or> int (length (bg_cache s)) \<le> i then Inl IndexOutOfBounds
      else
        let s1 = (if bg \<noteq> bg_cache s ! nat i
                  then (draw_bg bg pos_x pos_y s)\<lparr>bg_cache := (bg_cache s)[nat i := bg]\<rparr>
                  else s)
        in Inr (s1\<lparr>tft := tft s1 @ draw_text unit val label bg pos_x pos_y\<rparr>))"

definition draw_cells :: "Values \<Rightarrow> state \<Rightarrow> fault + state" where
  "draw_cells d s0 =
     then_do (cell_oil_temp d) (\<lambda>(buf, color).
     then_do (draw_cell UNIT_DEG_C buf ''OIL'' color 0 0 s0) (\<lambda>s1.
     then_do (cell_oil_press d) (\<lambda>(buf, color).
     then_do (draw_cell UNIT_BAR buf [] color 1 0 s1) (\<lambda>s2.
     then_do (cell_water_temp d) (\<lambda>(buf, color).
     then_do (draw_cell UNIT_DEG_C buf ''WATER'' color 0 1 s2) (\<lambda>s3.
     then_do (cell_boost d) (\<lambda>(buf, color).
     then_do (draw_cell UNIT_BAR buf ''BOOST'' color 1 1 s3) (\<lambda>s4.
     then_do (cell_rpm d) (\<lambda>(buf, color).
     then_do (draw_cell [] buf ''RPM'' color 0 2 s4) (\<lambda>s5.
     then_do (cell_volt d) (\<lambda>(buf, color).
     draw_cell ''V'' buf ''VOLT'' color 1 2 s5)))))))))))"

text \<open>The number of background fills among a sequence of driver calls.\<close>

definition is_fill :: "tft_call \<Rightarrow> bool" where
  "is_fill c = (case c of FillRect x y w h bg \<Rightarrow> True | _ \<Rightarrow> False)"

definition fills :: "tft_call list \<Rightarrow> nat" where
  "fills cs = length (filter is_fill cs)"

text \<open>The driver calls made by a step that leads from state \<open>s\<close> to state \<open>s'\<close>.\<close>

definition emitted :: "state \<Rightarrow> state \<Rightarrow> tft_call list" where
  "emitted s s' = drop (length (tft s)) (tft s')"

section \<open>The frame loop\<close>

text \<open>
  \<open>update_data\<close> keeps a static counter. While the counter is below 5 it only counts
  and returns. After that it overwrites the six readings with a dummy waveform computed
  from the counter in floating-point arithmetic; that computation is the parameter
  \<open>waveform\<close> here, so everything proved below holds whatever it does.
\<close>

definition update_data :: "(32 word \<Rightarrow> Values \<Rightarrow> Values) \<Rightarrow> Values \<times> 32 word \<Rightarrow> Values \<times> 32 word" where
  "update_data waveform = (\<lambda>(d, counter).
     if counter < 5 then (d, counter + 1)
     else (waveform counter d, counter + 1))"

text \<open>
  The globals of the sketch: \<open>data\<close>, the counter of \<open>update_data\<close>, and the display
  with its cache. \<open>setup\<close> leaves the first two as initialised and the screen black.
\<close>

record sketch =
  data :: Values
  counter :: "32 word"
  screen :: state

definition sketch_init :: sketch where
  "sketch_init =
     \<lparr>data = Values_empty, counter = 0, screen = \<lparr>bg_cache = bg_cache_init, tft = []\<rparr>\<rparr>"

text \<open>One pass of \<open>loop\<close> (the backlight and the delay are not part of the display log).\<close>

definition loop :: "(32 word \<Rightarrow> Values \<Rightarrow> Values) \<Rightarrow> sketch \<Rightarrow> fault + sketch" where
  "loop waveform m =
     (let (d, c) = update_data waveform (data m, counter m)
      in then_do (draw_cells d (screen m)) (\<lambda>s. Inr \<lparr>data = d, counter = c, screen = s\<rparr>))"

fun frames :: "(32 word \<Rightarrow> Values \<Rightarrow> Values) \<Rightarrow> nat \<Rightarrow> sketch \<Rightarrow> fault + sketch" where
  "frames waveform 0 m = Inr m"
| "frames waveform (Suc n) m = then_do (frames waveform n m) (loop waveform)"

section \<open>Sample readings\<close>

text \<open>
  The single-precision values used as concrete inputs below. \<open>12.1\<close>, \<open>99.999\<close> and
  \<open>1e30\<close> are not single-precision numbers: the \<open>float\<close> nearest to each is taken, as a
  C compiler does.
\<close>

definition float_1 :: float where
  "float_1 = \<lparr>sign = False, exponent = 127, fraction = 0\<rparr>"

definition float_2_5 :: float where
  "float_2_5 = \<lparr>sign = False, exponent = 128, fraction = 0x200000\<rparr>"

definition float_50 :: float where
  "float_50 = \<lparr>sign = False, exponent = 132, fraction = 0x480000\<rparr>"

definition float_85 :: float where
  "float_85 = \<lparr>sign = False, exponent = 133, fraction = 0x2A0000\<rparr>"

definition float_90 :: float where
  "float_90 = \<lparr>sign = False, exponent = 133, fraction = 0x340000\<rparr>"

definition float_100 :: float where
  "float_100 = \<lparr>sign = False, exponent = 133, fraction = 0x480000\<rparr>"

definition float_99_999 :: float where
  "float_99_999 = \<lparr>sign = False, exponent = 133, fraction = 0x47FF7D\<rparr>"

definition float_115 :: float where
  "float_115 = \<lparr>sign = False, exponent = 133, fraction = 0x660000\<rparr>"

definition float_120 :: float where
  "float_120 = \<lparr>sign = False, exponent = 133, fraction = 0x700000\<rparr>"

definition float_2000 :: float where
  "float_2000 = \<lparr>sign = False, exponent = 137, fraction = 0x7A0000\<rparr>"

definition float_12_1 :: float where
  "float_12_1 = \<lparr>sign = False, exponent = 130, fraction = 0x41999A\<rparr>"

definition float_1e30 :: float where
  "float_1e30 = \<lparr>sign = False, exponent = 226, fraction = 0x49F2CA\<rparr>"

definition scenario :: Values where
  "scenario =
     \<lparr>oil_temp = float_120, oil_press = float_1, water_temp = float_85,
      boost = NAN, rpm = float_2000, volt = float_12_1\<rparr>"

section \<open>Grey levels: properties\<close>

lemma nat_lt_16_cases:
  "n < 16 \<Longrightarrow> n \<in> {0, 1, 2, 3, 4, 5, 6, 7, 8, 9, 10, 11, 12, 13, 14, 15::nat}"
  by simp arith

lemma low_nibble_eq_mod: "(v :: 16 word) AND 0xf = v mod 16"
proof -
  have "v AND mask 4 = v mod 2 ^ 4"
    by (simp flip: take_bit_eq_mask add: take_bit_eq_mod)
  then show ?thesis by (simp add: mask_eq_exp_minus_1)
qed

lemma word16_lt_16_cases:
  assumes "unat (w :: 16 word) < 16"
  shows "w \<in> {0, 1, 2, 3, 4, 5, 6, 7, 8, 9, 10, 11, 12, 13, 14, 15}"
proof -
  have "unat w \<in> {0, 1, 2, 3, 4, 5, 6, 7, 8, 9, 10, 11, 12, 13, 14, 15::nat}"
    using assms by (rule nat_lt_16_cases)
  moreover have "w = of_nat (unat w)" by simp
  ultimately have "w \<in> of_nat ` {0, 1, 2, 3, 4, 5, 6, 7, 8, 9, 10, 11, 12, 13, 14, 15::nat}"
    by (metis imageI)
  then show ?thesis by simp
qed

lemma low_nibble_cases:
  "(v :: 16 word) AND 0xf \<in> {0, 1, 2, 3, 4, 5, 6, 7, 8, 9, 10, 11, 12, 13, 14, 15}"
proof -
  have "unat (v mod 16) < 16"
    by (simp add: unat_mod)
  then show ?thesis
    unfolding low_nibble_eq_mod by (rule word16_lt_16_cases)
qed

lemma gray_low_nibble: "gray_to_color v = gray_to_color (v AND 0xf)"
  by (simp add: gray_to_color_def and.assoc)

lemma gray_channels_nibble:
  assumes "w \<in> {0, 1, 2, 3, 4, 5, 6, 7, 8, 9, 10, 11, 12, 13, 14, 15 :: 16 word}"
  shows "red565 (gray_to_color w) = unat w * 31 div 15"
    and "green565 (gray_to_color w) = unat w * 63 div 15"
    and "blue565 (gray_to_color w) = unat w * 31 div 15"
    and "unat (gray_to_color w)
           = 2048 * (unat w * 31 div 15) + 32 * (unat w * 63 div 15) + unat w * 31 div 15"
  using assms by (auto simp: gray_to_color_def red565_def green565_def blue565_def)

text \<open>
  C7. For every grey level \<open>v\<close> from 0 to 15, the red and the blue channel of
  \<open>gray_to_color v\<close> are \<open>v * 31 / 15\<close> and the green channel is \<open>v * 63 / 15\<close> (integer
  division), and the colour is these three packed as RGB565. Level 0 is black and
  level 15 is white.
\<close>

theorem gray_to_color_linear:
  "(unat v < 16 \<longrightarrow>
      red565 (gray_to_color v) = unat v * 31 div 15
    \<and> green565 (gray_to_color v) = unat v * 63 div 15
    \<and> blue565 (gray_to_color v) = unat v * 31 div 15
    \<and> unat (gray_to_color v)
         = 2048 * (unat v * 31 div 15) + 32 * (unat v * 63 div 15) + unat v * 31 div 15)
   \<and> gray_to_color 0 = ST7735_BLACK
   \<and> gray_to_color 15 = ST7735_WHITE"
proof (intro conjI impI)
  assume "unat v < 16"
  then have v: "v \<in> {0, 1, 2, 3, 4, 5, 6, 7, 8, 9, 10, 11, 12, 13, 14, 15}"
    by (rule word16_lt_16_cases)
  show "red565 (gray_to_color v) = unat v * 31 div 15"
    by (rule gray_channels_nibble(1) [OF v])
  show "green565 (gray_to_color v) = unat v * 63 div 15"
    by (rule gray_channels_nibble(2) [OF v])
  show "blue565 (gray_to_color v) = unat v * 31 div 15"
    by (rule gray_channels_nibble(3) [OF v])
  show "unat (gray_to_color v)
          = 2048 * (unat v * 31 div 15) + 32 * (unat v * 63 div 15) + unat v * 31 div 15"
    by (rule gray_channels_nibble(4) [OF v])
next
  show "gray_to_color 0 = ST7735_BLACK"
    by (simp add: gray_to_color_def ST7735_BLACK_def)
  show "gray_to_color 15 = ST7735_WHITE"
    by (simp add: gray_to_color_def ST7735_WHITE_def)
qed

theorem gray_to_color_linear_witness:
  "unat (7 :: 16 word) < 16
   \<and> red565 (gray_to_color 7) = 14 \<and> green565 (gray_to_color 7) = 29
   \<and> blue565 (gray_to_color 7) = 14 \<and> gray_to_color 7 = 0x73AE"
proof -
  have "unat (gray_to_color 7) = unat (0x73AE :: 16 word)"
    using gray_to_color_linear [of 7] by simp
  then have "gray_to_color 7 = 0x73AE"
    by (simp only: word_unat_eq_iff)
  then show ?thesis
    using gray_to_color_linear [of 7] by simp
qed

text \<open>
  C9. \<open>gray_to_color\<close> is defined on every 16-bit input and looks only at the low four
  bits: \<open>gray_to_color v = gray_to_color (v mod 16)\<close>; and the red field of the result
  always equals its blue field.
\<close>

theorem gray_to_color_low_nibble:
  "gray_to_color v = gray_to_color (v mod 16)
   \<and> red565 (gray_to_color v) = blue565 (gray_to_color v)"
proof
  show "gray_to_color v = gray_to_color (v mod 16)"
    using gray_low_nibble [of v] by (simp add: low_nibble_eq_mod)
  have "red565 (gray_to_color (v AND 0xf)) = blue565 (gray_to_color (v AND 0xf))"
    using gray_channels_nibble(1,3) [OF low_nibble_cases [of v]] by simp
  then show "red565 (gray_to_color v) = blue565 (gray_to_color v)"
    using gray_low_nibble [of v] by simp
qed

section \<open>Evaluating the formatter\<close>

lemma digits_small: "n < 10 \<Longrightarrow> digits n = [digit_char n]"
  by (simp add: digits.simps)

lemma digits_large: "10 \<le> n \<Longrightarrow> digits n = digits (n div 10) @ [digit_char (n mod 10)]"
  by (subst digits.simps) simp

lemmas sample_defs = float_1_def float_85_def float_100_def float_99_999_def float_115_def
  float_120_def float_2000_def float_12_1_def float_1e30_def float_2_5_def float_50_def
  float_90_def

lemmas color_defs = ST7735_BLACK_def ST7735_BLUE_def ST7735_RED_def ST7735_ORANGE_def
  ST7735_WHITE_def

lemma sample_finite:
  "\<not> isnan float_1" "\<not> isinf float_1" "\<not> isnan float_85" "\<not> isinf float_85"
  "\<not> isnan float_100" "\<not> isinf float_100" "\<not> isnan float_99_999" "\<not> isinf float_99_999"
  "\<not> isnan float_115" "\<not> isinf float_115" "\<not> isnan float_120" "\<not> isinf float_120"
  "\<not> isnan float_2000" "\<not> isinf float_2000" "\<not> isnan float_12_1" "\<not> isinf float_12_1"
  "\<not> isnan float_1e30" "\<not> isinf float_1e30" "\<not> isnan float_2_5" "\<not> isinf float_2_5"
  "\<not> isnan float_50" "\<not> isinf float_50" "\<not> isnan float_90" "\<not> isinf float_90"
  by (simp_all add: isnan_def isinf_def sample_defs)

lemma sample_sign:
  "\<not> sign float_1" "\<not> sign float_85" "\<not> sign float_100" "\<not> sign float_99_999"
  "\<not> sign float_115" "\<not> sign float_120" "\<not> sign float_2000" "\<not> sign float_12_1"
  "\<not> sign float_1e30" "\<not> sign NAN" "\<not> sign float_2_5" "\<not> sign float_50"
  "\<not> sign float_90"
  by (simp_all add: sample_defs NAN_def)

lemma sample_ratio:
  "ratio float_1 = (8388608, 8388608)"
  "ratio float_85 = (11141120, 131072)"
  "ratio float_100 = (13107200, 131072)"
  "ratio float_99_999 = (13107069, 131072)"
  "ratio float_115 = (15073280, 131072)"
  "ratio float_120 = (15728640, 131072)"
  "ratio float_2000 = (16384000, 8192)"
  "ratio float_12_1 = (12687770, 1048576)"
  "ratio float_1e30 = (1000000015047466219876688855040, 1)"
  "ratio float_2_5 = (10485760, 4194304)"
  "ratio float_50 = (13107200, 262144)"
  "ratio float_90 = (11796480, 131072)"
  by (simp_all add: ratio_def significand_def sample_defs)

lemma sample_valof:
  "valof float_1 = 1" "valof float_85 = 85" "valof float_100 = 100"
  "valof float_99_999 = 13107069 / 131072" "valof float_115 = 115"
  "valof float_120 = 120" "valof float_2000 = 2000"
  "valof float_12_1 = 6343885 / 524288" "valof float_1e30 = 1000000015047466219876688855040"
  "valof float_2_5 = 5 / 2" "valof float_50 = 50" "valof float_90 = 90"
  by (simp_all add: valof_def magnitude_def sample_ratio sample_sign)

lemma isnan_NAN: "isnan NAN"
  by (simp add: isnan_def NAN_def)

lemma sample_format:
  "format_f 3 (Suc 0) float_1 = ''1.0''" "format_f 3 0 float_85 = '' 85''"
  "format_f 3 0 float_100 = ''100''" "format_f 3 0 float_99_999 = ''100''"
  "format_f 3 0 float_115 = ''115''" "format_f 3 0 float_120 = ''120''"
  "format_f 4 0 float_2000 = ''2000''" "format_f 4 (Suc 0) float_12_1 = ''12.1''"
  "format_f 3 0 float_1e30 = ''1000000015047466219876688855040''"
  by (simp_all add: format_f_def sample_finite sample_sign sample_ratio fixed_def
      round_half_even_def Let_def digits_small digits_large digit_char_def)

lemma format_NAN:
  "format_f 3 0 NAN = ''nan''" "format_f 3 (Suc 0) NAN = ''nan''"
  "format_f 4 0 NAN = '' nan''" "format_f 4 (Suc 0) NAN = '' nan''"
  by (simp_all add: format_f_def isnan_NAN sample_sign)

lemma sample_ge:
  "float_ge float_100 50" "float_ge float_100 100" "\<not> float_ge float_100 115"
  "float_ge float_99_999 50" "\<not> float_ge float_99_999 100" "\<not> float_ge float_99_999 115"
  "float_ge float_115 50" "float_ge float_115 100" "float_ge float_115 115"
  "float_ge float_120 50" "float_ge float_120 100" "float_ge float_120 115"
  "float_ge float_85 50" "\<not> float_ge float_85 90" "\<not> float_ge float_85 100"
  "\<not> float_ge float_1 (5 / 2)" "float_ge float_2_5 (5 / 2)"
  "float_ge float_50 50" "\<not> float_ge float_50 90" "\<not> float_ge float_50 100"
  "\<not> float_ge float_50 115"
  "float_ge float_90 50" "float_ge float_90 90" "\<not> float_ge float_90 100"
  by (simp_all add: float_ge_def sample_finite sample_valof)

section \<open>The blocks of \<open>draw_cells\<close>\<close>

lemma format_cell_fits:
  assumes "length (format_f w p x) < BUF_SIZE"
  shows "format_cell w p thr x =
           Inr (if length (format_f w p x) \<noteq> w \<or> isnan x then (''ERR'', ST7735_RED)
                else (format_f w p x, thr x))"
  using assms by (simp add: format_cell_def sprintf_def then_do_def BUF_SIZE_def)

lemma format_cell_overflow:
  assumes "\<not> length (format_f w p x) < BUF_SIZE"
  shows "format_cell w p thr x = Inl BufferOverflow"
  using assms by (simp add: format_cell_def sprintf_def then_do_def)

lemma format_cell_NAN:
  "format_cell 3 0 thr NAN = Inr (''ERR'', ST7735_RED)"
  "format_cell 3 (Suc 0) thr NAN = Inr (''ERR'', ST7735_RED)"
  "format_cell 4 0 thr NAN = Inr (''ERR'', ST7735_RED)"
  "format_cell 4 (Suc 0) thr NAN = Inr (''ERR'', ST7735_RED)"
  by (simp_all add: format_cell_fits format_NAN BUF_SIZE_def isnan_NAN)

lemma sample_color:
  "oil_temp_color float_100 = ST7735_ORANGE"
  "oil_temp_color float_99_999 = ST7735_BLACK"
  "oil_temp_color float_115 = ST7735_RED"
  "oil_temp_color float_120 = ST7735_RED"
  "water_temp_color float_85 = ST7735_BLACK"
  "oil_press_color float_1 = ST7735_BLACK"
  "oil_press_color float_2_5 = ST7735_RED"
  "oil_temp_color float_50 = ST7735_BLACK"
  "water_temp_color float_50 = ST7735_BLACK"
  "water_temp_color float_90 = ST7735_ORANGE"
  "water_temp_color float_100 = ST7735_RED"
  by (simp_all add: oil_temp_color_def water_temp_color_def oil_press_color_def sample_ge)

lemma sample_cell:
  "format_cell 3 0 oil_temp_color float_100 = Inr (''100'', ST7735_ORANGE)"
  "format_cell 3 0 oil_temp_color float_99_999 = Inr (''100'', ST7735_BLACK)"
  "format_cell 3 0 oil_temp_color float_115 = Inr (''115'', ST7735_RED)"
  "format_cell 3 0 oil_temp_color float_120 = Inr (''120'', ST7735_RED)"
  "format_cell 3 (Suc 0) oil_press_color float_1 = Inr (''1.0'', ST7735_BLACK)"
  "format_cell 3 0 water_temp_color float_85 = Inr ('' 85'', ST7735_BLACK)"
  "format_cell 4 0 plain_color float_2000 = Inr (''2000'', ST7735_BLACK)"
  "format_cell 4 (Suc 0) plain_color float_12_1 = Inr (''12.1'', ST7735_BLACK)"
  by (simp_all add: format_cell_fits sample_format BUF_SIZE_def sample_finite sample_color
      plain_color_def)

lemma overflow_cell: "format_cell 3 0 thr float_1e30 = Inl BufferOverflow"
  by (simp add: format_cell_overflow sample_format BUF_SIZE_def)

section \<open>\<open>draw_cell\<close> and the cache\<close>

lemma tft_draw_bg:
  "tft (draw_bg bg pos_x pos_y s) =
     tft s @ [FillRect (64 * pos_x) (if pos_y = 0 then 0 else if pos_y = 1 then 55 else 105) 64
                (if pos_y = 1 then 50 else 55) bg]"
  by (simp add: draw_bg_def)

lemma bg_cache_draw_bg: "bg_cache (draw_bg bg pos_x pos_y s) = bg_cache s"
  by (simp add: draw_bg_def)

lemma fills_append: "fills (xs @ ys) = fills xs + fills ys"
  by (simp add: fills_def)

lemma fills_draw_text: "fills (draw_text unit val label bg pos_x pos_y) = 0"
  by (simp add: fills_def draw_text_def is_fill_def Let_def)

lemma fills_FillRect: "fills [FillRect x y w h bg] = 1"
  by (simp add: fills_def is_fill_def)

lemma fills_Nil: "fills [] = 0"
  by (simp add: fills_def)

lemma grid_index:
  assumes "pos_x \<in> {0, 1}" and "pos_y \<in> {0, 1, 2}"
  shows "0 \<le> cache_index pos_x pos_y" and "cache_index pos_x pos_y < 6"
  using assms by (auto simp: cache_index_def)

text \<open>What a call of \<open>draw_cell\<close> does when its cache slot exists.\<close>

lemma draw_cell_in_range:
  assumes "0 \<le> cache_index pos_x pos_y"
    and "cache_index pos_x pos_y < int (length (bg_cache s))"
  shows "draw_cell unit val label bg pos_x pos_y s =
     Inr \<lparr>bg_cache = (bg_cache s)[nat (cache_index pos_x pos_y) := bg],
          tft = tft s
            @ (if bg \<noteq> bg_cache s ! nat (cache_index pos_x pos_y)
               then [FillRect (64 * pos_x) (if pos_y = 0 then 0 else if pos_y = 1 then 55 else 105)
                       64 (if pos_y = 1 then 50 else 55) bg]
               else [])
            @ draw_text unit val label bg pos_x pos_y\<rparr>"
  using assms by (simp add: draw_cell_def Let_def tft_draw_bg bg_cache_draw_bg)

lemma emitted_append: "tft s' = tft s @ cs \<Longrightarrow> emitted s s' = cs"
  by (simp add: emitted_def)

lemma draw_cell_grid:
  assumes "pos_x \<in> {0, 1}" and "pos_y \<in> {0, 1, 2}" and "length (bg_cache s) = 6"
  shows "draw_cell unit val label bg pos_x pos_y s =
     Inr \<lparr>bg_cache = (bg_cache s)[nat (cache_index pos_x pos_y) := bg],
          tft = tft s
            @ (if bg \<noteq> bg_cache s ! nat (cache_index pos_x pos_y)
               then [FillRect (64 * pos_x) (if pos_y = 0 then 0 else if pos_y = 1 then 55 else 105)
                       64 (if pos_y = 1 then 50 else 55) bg]
               else [])
            @ draw_text unit val label bg pos_x pos_y\<rparr>"
  using grid_index [OF assms(1,2)] assms(3) by (intro draw_cell_in_range) simp_all

lemma draw_cell_fills:
  assumes "pos_x \<in> {0, 1}" and "pos_y \<in> {0, 1, 2}" and "length (bg_cache s) = 6"
  shows "\<exists>s'. draw_cell unit val label bg pos_x pos_y s = Inr s'
           \<and> length (bg_cache s') = 6
           \<and> bg_cache s' ! nat (cache_index pos_x pos_y) = bg
           \<and> fills (emitted s s')
                = (if bg = bg_cache s ! nat (cache_index pos_x pos_y) then 0 else 1)"
proof -
  let ?i = "nat (cache_index pos_x pos_y)"
  let ?s' = "\<lparr>bg_cache = (bg_cache s)[?i := bg],
          tft = tft s
            @ (if bg \<noteq> bg_cache s ! ?i
               then [FillRect (64 * pos_x) (if pos_y = 0 then 0 else if pos_y = 1 then 55 else 105)
                       64 (if pos_y = 1 then 50 else 55) bg]
               else [])
            @ draw_text unit val label bg pos_x pos_y\<rparr>"
  have run: "draw_cell unit val label bg pos_x pos_y s = Inr ?s'"
    by (rule draw_cell_grid [OF assms])
  have i: "?i < length (bg_cache s)"
    using grid_index [OF assms(1,2)] assms(3) by simp
  have "emitted s ?s' = (if bg \<noteq> bg_cache s ! ?i
               then [FillRect (64 * pos_x) (if pos_y = 0 then 0 else if pos_y = 1 then 55 else 105)
                       64 (if pos_y = 1 then 50 else 55) bg]
               else [])
            @ draw_text unit val label bg pos_x pos_y"
    by (rule emitted_append) simp
  then have "fills (emitted s ?s') = (if bg = bg_cache s ! ?i then 0 else 1)"
    by (simp add: fills_append fills_draw_text fills_FillRect fills_Nil)
  moreover have "length (bg_cache ?s') = 6" using assms(3) by simp
  moreover have "bg_cache ?s' ! ?i = bg" using i by simp
  ultimately show ?thesis using run by blast
qed

text \<open>
  C2 (as amended). Two calls of \<open>draw_cell\<close> in succession for the same grid position
  with the same background colour: the second call never fills; the first fills exactly
  when the colour differs from the cached one, so the two calls together fill once in
  that case and not at all when the cache already held the colour. A further call with
  a different colour fills once and stores the new colour in the cache slot.
\<close>

theorem draw_cell_twice:
  assumes "pos_x \<in> {0, 1}" and "pos_y \<in> {0, 1, 2}" and "length (bg_cache s) = 6"
  shows "\<exists>s1 s2. draw_cell unit val label bg pos_x pos_y s = Inr s1
           \<and> draw_cell unit' val' label' bg pos_x pos_y s1 = Inr s2
           \<and> fills (emitted s1 s2) = 0
           \<and> fills (emitted s s1) + fills (emitted s1 s2)
                = (if bg = bg_cache s ! nat (cache_index pos_x pos_y) then 0 else 1)
           \<and> (\<forall>bg'. bg' \<noteq> bg \<longrightarrow>
                 (\<exists>s3. draw_cell unit' val' label' bg' pos_x pos_y s1 = Inr s3
                    \<and> fills (emitted s1 s3) = 1
                    \<and> bg_cache s3 ! nat (cache_index pos_x pos_y) = bg'))"
proof -
  obtain s1 where s1: "draw_cell unit val label bg pos_x pos_y s = Inr s1"
      "length (bg_cache s1) = 6" "bg_cache s1 ! nat (cache_index pos_x pos_y) = bg"
      "fills (emitted s s1) = (if bg = bg_cache s ! nat (cache_index pos_x pos_y) then 0 else 1)"
    using draw_cell_fills [OF assms] by blast
  obtain s2 where s2: "draw_cell unit' val' label' bg pos_x pos_y s1 = Inr s2"
      "fills (emitted s1 s2) = 0"
    using draw_cell_fills [OF assms(1,2) s1(2), of unit' val' label' bg] s1(3) by auto
  have "\<exists>s3. draw_cell unit' val' label' bg' pos_x pos_y s1 = Inr s3
          \<and> fills (emitted s1 s3) = 1
          \<and> bg_cache s3 ! nat (cache_index pos_x pos_y) = bg'" if "bg' \<noteq> bg" for bg'
    using draw_cell_fills [OF assms(1,2) s1(2), of unit' val' label' bg'] s1(3) that by auto
  then show ?thesis using s1 s2 by auto
qed

theorem draw_cell_twice_witness:
  "\<exists>s1 s2. draw_cell UNIT_BAR ''1.0'' [] ST7735_RED 1 0 (screen sketch_init) = Inr s1
     \<and> draw_cell UNIT_BAR ''1.1'' [] ST7735_RED 1 0 s1 = Inr s2
     \<and> fills (emitted s1 s2) = 0
     \<and> fills (emitted (screen sketch_init) s1) + fills (emitted s1 s2) = 1
     \<and> (\<exists>s3. draw_cell UNIT_BAR ''1.1'' [] ST7735_BLACK 1 0 s1 = Inr s3
            \<and> fills (emitted s1 s3) = 1 \<and> bg_cache s3 ! 1 = ST7735_BLACK)"
proof -
  have "(1::int) \<in> {0, 1}" and "(0::int) \<in> {0, 1, 2}"
    and "length (bg_cache (screen sketch_init)) = 6"
    by (simp_all add: sketch_init_def bg_cache_init_def)
  from draw_cell_twice [OF this, of UNIT_BAR "''1.0''" "[]" ST7735_RED UNIT_BAR "''1.1''" "[]"]
  show ?thesis
    by (auto simp: cache_index_def sketch_init_def bg_cache_init_def color_defs)
qed

theorem draw_cell_twice_no_fill:
  "then_do (draw_cell UNIT_BAR ''1.0'' [] ST7735_BLACK 1 0 (screen sketch_init))
           (draw_cell UNIT_BAR ''1.0'' [] ST7735_BLACK 1 0)
     = Inr \<lparr>bg_cache = bg_cache_init,
            tft = draw_text UNIT_BAR ''1.0'' [] ST7735_BLACK 1 0
                @ draw_text UNIT_BAR ''1.0'' [] ST7735_BLACK 1 0\<rparr>
   \<and> fills (draw_text UNIT_BAR ''1.0'' [] ST7735_BLACK 1 0
            @ draw_text UNIT_BAR ''1.0'' [] ST7735_BLACK 1 0) = 0"
  by (simp add: then_do_def draw_cell_def cache_index_def sketch_init_def bg_cache_init_def
      fills_append fills_draw_text)

text \<open>
  C5 (as amended). The cache starts with \<open>ST7735_BLACK\<close> in all six slots, the colour
  \<open>setup\<close> leaves on the screen and also the neutral cell colour. The first render of a
  cell, at a time when its slot still holds the initial value, paints the background
  exactly when the requested colour is not \<open>ST7735_BLACK\<close>.
\<close>

theorem first_render_fill:
  assumes "pos_x \<in> {0, 1}" and "pos_y \<in> {0, 1, 2}" and "length (bg_cache s) = 6"
    and "bg_cache s ! nat (cache_index pos_x pos_y)
           = bg_cache_init ! nat (cache_index pos_x pos_y)"
  shows "bg_cache_init ! nat (cache_index pos_x pos_y) = ST7735_BLACK
     \<and> (\<exists>s'. draw_cell unit val label bg pos_x pos_y s = Inr s'
           \<and> fills (emitted s s') = (if bg = ST7735_BLACK then 0 else 1))"
proof -
  have "bg_cache_init ! nat (cache_index pos_x pos_y) = ST7735_BLACK"
    using assms(1,2) by (auto simp: cache_index_def bg_cache_init_def)
  then show ?thesis
    using draw_cell_fills [OF assms(1-3), of unit val label bg] assms(4) by auto
qed

theorem first_render_fill_witness:
  "bg_cache_init ! 5 = ST7735_BLACK
   \<and> (\<exists>s'. draw_cell ''V'' ''ERR'' ''VOLT'' ST7735_RED 1 2 (screen sketch_init) = Inr s'
         \<and> fills (emitted (screen sketch_init) s') = 1)"
proof -
  have "(1::int) \<in> {0, 1}" and "(2::int) \<in> {0, 1, 2}"
    and "length (bg_cache (screen sketch_init)) = 6"
    and "bg_cache (screen sketch_init) ! nat (cache_index 1 2)
           = bg_cache_init ! nat (cache_index 1 2)"
    by (simp_all add: sketch_init_def bg_cache_init_def)
  from first_render_fill [OF this, of "''V''" "''ERR''" "''VOLT''" ST7735_RED]
  show ?thesis
    by (simp add: cache_index_def color_defs)
qed

theorem first_render_black_no_fill:
  "draw_cell ''V'' ''12.1'' ''VOLT'' ST7735_BLACK 1 2 (screen sketch_init)
     = Inr \<lparr>bg_cache = bg_cache_init, tft = draw_text ''V'' ''12.1'' ''VOLT'' ST7735_BLACK 1 2\<rparr>
   \<and> fills (draw_text ''V'' ''12.1'' ''VOLT'' ST7735_BLACK 1 2) = 0"
  by (simp add: draw_cell_def cache_index_def sketch_init_def bg_cache_init_def fills_draw_text)

section \<open>One frame\<close>

text \<open>
  A frame in which every block formats without a fault: each cell contributes its own
  segment of driver calls, built from that cell's text and colour and from that cell's
  cache slot only.
\<close>

lemma draw_cell_slot:
  "draw_cell unit val label k 0 0 \<lparr>bg_cache = [c1, c2, c3, c4, c5, c6], tft = t\<rparr> =
     Inr \<lparr>bg_cache = [k, c2, c3, c4, c5, c6],
          tft = t @ (if k \<noteq> c1 then [FillRect 0 0 64 55 k] else [])
                  @ draw_text unit val label k 0 0\<rparr>"
  "draw_cell unit val label k 1 0 \<lparr>bg_cache = [c1, c2, c3, c4, c5, c6], tft = t\<rparr> =
     Inr \<lparr>bg_cache = [c1, k, c3, c4, c5, c6],
          tft = t @ (if k \<noteq> c2 then [FillRect 64 0 64 55 k] else [])
                  @ draw_text unit val label k 1 0\<rparr>"
  "draw_cell unit val label k 0 1 \<lparr>bg_cache = [c1, c2, c3, c4, c5, c6], tft = t\<rparr> =
     Inr \<lparr>bg_cache = [c1, c2, k, c4, c5, c6],
          tft = t @ (if k \<noteq> c3 then [FillRect 0 55 64 50 k] else [])
                  @ draw_text unit val label k 0 1\<rparr>"
  "draw_cell unit val label k 1 1 \<lparr>bg_cache = [c1, c2, c3, c4, c5, c6], tft = t\<rparr> =
     Inr \<lparr>bg_cache = [c1, c2, c3, k, c5, c6],
          tft = t @ (if k \<noteq> c4 then [FillRect 64 55 64 50 k] else [])
                  @ draw_text unit val label k 1 1\<rparr>"
  "draw_cell unit val label k 0 2 \<lparr>bg_cache = [c1, c2, c3, c4, c5, c6], tft = t\<rparr> =
     Inr \<lparr>bg_cache = [c1, c2, c3, c4, k, c6],
          tft = t @ (if k \<noteq> c5 then [FillRect 0 105 64 55 k] else [])
                  @ draw_text unit val label k 0 2\<rparr>"
  "draw_cell unit val label k 1 2 \<lparr>bg_cache = [c1, c2, c3, c4, c5, c6], tft = t\<rparr> =
     Inr \<lparr>bg_cache = [c1, c2, c3, c4, c5, k],
          tft = t @ (if k \<noteq> c6 then [FillRect 64 105 64 55 k] else [])
                  @ draw_text unit val label k 1 2\<rparr>"
  by (simp_all add: draw_cell_def cache_index_def draw_bg_def)

lemma draw_cells_run:
  assumes "cell_oil_temp d = Inr (b1, k1)" and "cell_oil_press d = Inr (b2, k2)"
    and "cell_water_temp d = Inr (b3, k3)" and "cell_boost d = Inr (b4, k4)"
    and "cell_rpm d = Inr (b5, k5)" and "cell_volt d = Inr (b6, k6)"
  shows "draw_cells d \<lparr>bg_cache = [c1, c2, c3, c4, c5, c6], tft = t\<rparr> =
     Inr \<lparr>bg_cache = [k1, k2, k3, k4, k5, k6],
          tft = t
            @ (if k1 \<noteq> c1 then [FillRect 0 0 64 55 k1] else [])
            @ draw_text UNIT_DEG_C b1 ''OIL'' k1 0 0
            @ (if k2 \<noteq> c2 then [FillRect 64 0 64 55 k2] else [])
            @ draw_text UNIT_BAR b2 [] k2 1 0
            @ (if k3 \<noteq> c3 then [FillRect 0 55 64 50 k3] else [])
            @ draw_text UNIT_DEG_C b3 ''WATER'' k3 0 1
            @ (if k4 \<noteq> c4 then [FillRect 64 55 64 50 k4] else [])
            @ draw_text UNIT_BAR b4 ''BOOST'' k4 1 1
            @ (if k5 \<noteq> c5 then [FillRect 0 105 64 55 k5] else [])
            @ draw_text [] b5 ''RPM'' k5 0 2
            @ (if k6 \<noteq> c6 then [FillRect 64 105 64 55 k6] else [])
            @ draw_text ''V'' b6 ''VOLT'' k6 1 2\<rparr>"
  unfolding draw_cells_def assms then_do_def
  by (simp only: sum.case prod.case draw_cell_slot append_assoc)

lemma cells_empty:
  "cell_oil_temp Values_empty = Inr (''ERR'', ST7735_RED)"
  "cell_oil_press Values_empty = Inr (''ERR'', ST7735_RED)"
  "cell_water_temp Values_empty = Inr (''ERR'', ST7735_RED)"
  "cell_boost Values_empty = Inr (''ERR'', ST7735_RED)"
  "cell_rpm Values_empty = Inr (''ERR'', ST7735_RED)"
  "cell_volt Values_empty = Inr (''ERR'', ST7735_RED)"
  by (simp_all add: cell_oil_temp_def cell_oil_press_def cell_water_temp_def cell_boost_def
      cell_rpm_def cell_volt_def Values_empty_def format_cell_NAN)

lemma cells_scenario:
  "cell_oil_temp scenario = Inr (''120'', ST7735_RED)"
  "cell_oil_press scenario = Inr (''1.0'', ST7735_BLACK)"
  "cell_water_temp scenario = Inr ('' 85'', ST7735_BLACK)"
  "cell_boost scenario = Inr (''ERR'', ST7735_RED)"
  "cell_rpm scenario = Inr (''2000'', ST7735_BLACK)"
  "cell_volt scenario = Inr (''12.1'', ST7735_BLACK)"
  by (simp_all add: cell_oil_temp_def cell_oil_press_def cell_water_temp_def cell_boost_def
      cell_rpm_def cell_volt_def scenario_def format_cell_NAN sample_cell)

lemma format_cell_fault: "format_cell w p thr x = Inl e \<Longrightarrow> e = BufferOverflow"
  by (auto simp: format_cell_def sprintf_def then_do_def split: if_splits)

lemma cell_fault:
  "cell_oil_temp d = Inl e \<Longrightarrow> e = BufferOverflow"
  "cell_oil_press d = Inl e \<Longrightarrow> e = BufferOverflow"
  "cell_water_temp d = Inl e \<Longrightarrow> e = BufferOverflow"
  "cell_boost d = Inl e \<Longrightarrow> e = BufferOverflow"
  "cell_rpm d = Inl e \<Longrightarrow> e = BufferOverflow"
  "cell_volt d = Inl e \<Longrightarrow> e = BufferOverflow"
  by (simp_all add: cell_oil_temp_def cell_oil_press_def cell_water_temp_def cell_boost_def
      cell_rpm_def cell_volt_def format_cell_fault)

lemma block_index_ok:
  assumes "length (bg_cache s) = 6" and "pos_x \<in> {0, 1}" and "pos_y \<in> {0, 1, 2}"
    and "\<And>e. cell = Inl e \<Longrightarrow> e = BufferOverflow"
    and "\<And>s'. length (bg_cache s') = 6 \<Longrightarrow> rest s' \<noteq> Inl IndexOutOfBounds"
  shows "then_do cell (\<lambda>(buf, color).
           then_do (draw_cell unit buf label color pos_x pos_y s) rest) \<noteq> Inl IndexOutOfBounds"
proof (cases cell)
  case (Inl e)
  then show ?thesis using assms(4) by (simp add: then_do_def)
next
  case (Inr bc)
  obtain buf color where bc: "bc = (buf, color)" by (cases bc)
  obtain s' where "draw_cell unit buf label color pos_x pos_y s = Inr s'"
      and "length (bg_cache s') = 6"
    using draw_cell_fills [OF assms(2,3,1)] by blast
  then show ?thesis using Inr bc assms(5) by (simp add: then_do_def)
qed

lemma last_block_index_ok:
  assumes "length (bg_cache s) = 6" and "pos_x \<in> {0, 1}" and "pos_y \<in> {0, 1, 2}"
    and "\<And>e. cell = Inl e \<Longrightarrow> e = BufferOverflow"
  shows "then_do cell (\<lambda>(buf, color). draw_cell unit buf label color pos_x pos_y s)
           \<noteq> Inl IndexOutOfBounds"
proof (cases cell)
  case (Inl e)
  then show ?thesis using assms(4) by (simp add: then_do_def)
next
  case (Inr bc)
  obtain buf color where bc: "bc = (buf, color)" by (cases bc)
  obtain s' where "draw_cell unit buf label color pos_x pos_y s = Inr s'"
    using draw_cell_fills [OF assms(2,3,1)] by blast
  then show ?thesis using Inr bc by (simp add: then_do_def)
qed

lemma draw_cells_index_ok:
  assumes "length (bg_cache s) = 6"
  shows "draw_cells d s \<noteq> Inl IndexOutOfBounds"
  unfolding draw_cells_def
  apply (rule block_index_ok [OF assms]; (simp; fail)?)
   apply (erule cell_fault)
  apply (rule block_index_ok; (simp; fail)?)
   apply (erule cell_fault)
  apply (rule block_index_ok; (simp; fail)?)
   apply (erule cell_fault)
  apply (rule block_index_ok; (simp; fail)?)
   apply (erule cell_fault)
  apply (rule block_index_ok; (simp; fail)?)
   apply (erule cell_fault)
  apply (rule last_block_index_ok; (simp; fail)?)
  apply (erule cell_fault)
  done

text \<open>
  C8. For every grid position (column 0 or 1, row 0, 1 or 2) the cache index
  \<open>pos_y * 2 + pos_x\<close> lies within the six entries of \<open>bg_cache\<close>, distinct positions have
  distinct indices, and \<open>draw_cells\<close>, which uses these positions only, never indexes
  outside the cache.
\<close>

theorem cache_index_grid:
  "(\<forall>pos_x \<in> {0, 1}. \<forall>pos_y \<in> {0, 1, 2}.
      0 \<le> cache_index pos_x pos_y \<and> cache_index pos_x pos_y < int (length bg_cache_init))
   \<and> (\<forall>pos_x \<in> {0, 1}. \<forall>pos_y \<in> {0, 1, 2}. \<forall>pos_x' \<in> {0, 1}. \<forall>pos_y' \<in> {0, 1, 2}.
        cache_index pos_x pos_y = cache_index pos_x' pos_y' \<longrightarrow> pos_x = pos_x' \<and> pos_y = pos_y')
   \<and> (length (bg_cache s) = length bg_cache_init \<longrightarrow> draw_cells d s \<noteq> Inl IndexOutOfBounds)"
proof (intro conjI)
  show "\<forall>pos_x \<in> {0, 1}. \<forall>pos_y \<in> {0, 1, 2}.
      0 \<le> cache_index pos_x pos_y \<and> cache_index pos_x pos_y < int (length bg_cache_init)"
    by (simp add: cache_index_def bg_cache_init_def)
  show "\<forall>pos_x \<in> {0, 1}. \<forall>pos_y \<in> {0, 1, 2}. \<forall>pos_x' \<in> {0, 1}. \<forall>pos_y' \<in> {0, 1, 2}.
        cache_index pos_x pos_y = cache_index pos_x' pos_y' \<longrightarrow> pos_x = pos_x' \<and> pos_y = pos_y'"
    by (simp add: cache_index_def)
  show "length (bg_cache s) = length bg_cache_init \<longrightarrow> draw_cells d s \<noteq> Inl IndexOutOfBounds"
    by (simp add: bg_cache_init_def draw_cells_index_ok)
qed

theorem cache_index_grid_witness:
  "(1::int) \<in> {0, 1} \<and> (2::int) \<in> {0, 1, 2} \<and> (0::int) \<in> {0, 1} \<and> (1::int) \<in> {0, 1, 2}
   \<and> cache_index 1 2 = 5 \<and> cache_index 1 2 < int (length bg_cache_init)
   \<and> cache_index 1 2 \<noteq> cache_index 0 1
   \<and> length (bg_cache (screen sketch_init)) = length bg_cache_init
   \<and> draw_cells scenario (screen sketch_init) \<noteq> Inl IndexOutOfBounds"
  using cache_index_grid [of "screen sketch_init" scenario]
  by (simp add: cache_index_def sketch_init_def)

section \<open>Colours and texts of the cells\<close>

lemma ladder:
  "oil_temp_color x =
     (if float_ge x 115 then ST7735_RED else if float_ge x 100 then ST7735_ORANGE
      else if float_ge x 50 then ST7735_BLACK else ST7735_BLUE)"
  "water_temp_color x =
     (if float_ge x 100 then ST7735_RED else if float_ge x 90 then ST7735_ORANGE
      else if float_ge x 50 then ST7735_BLACK else ST7735_BLUE)"
  "oil_press_color x = (if float_ge x (5 / 2) then ST7735_RED else ST7735_BLACK)"
  by (simp_all add: oil_temp_color_def water_temp_color_def oil_press_color_def)

lemma float_ge_finite: "\<not> isnan x \<Longrightarrow> \<not> isinf x \<Longrightarrow> float_ge x c \<longleftrightarrow> c \<le> valof x"
  by (simp add: float_ge_def)

lemma sample_nearest:
  "\<bar>valof float_99_999 - 99999 / 1000\<bar> \<le> 1 / 2 ^ 18"
  "\<bar>valof float_12_1 - 121 / 10\<bar> \<le> 1 / 2 ^ 21"
  "\<bar>valof float_1e30 - 10 ^ 30\<bar> \<le> 2 ^ 75"
  by (simp_all add: sample_valof)

text \<open>
  C3. The colour ladders take the highest threshold that the value meets, each band
  including its lower bound. For \<open>oil_temp\<close>: red from 115, orange from 100, black from
  50, blue below 50; for \<open>water_temp\<close> the bounds are 100, 90 and 50; for \<open>oil_press\<close>:
  red from 2.5, black below. In particular the \<open>oil_temp\<close> cell is orange at exactly
  100.0, black at 99.999 (the nearest \<open>float\<close>) and red at exactly 115.0; the ladders of
  \<open>water_temp\<close> and \<open>oil_press\<close> change colour at exactly 50, 90, 100 and at exactly 2.5.
\<close>

theorem threshold_bands:
  "(\<not> isnan x \<and> \<not> isinf x \<longrightarrow>
      oil_temp_color x =
        (if 115 \<le> valof x then ST7735_RED else if 100 \<le> valof x then ST7735_ORANGE
         else if 50 \<le> valof x then ST7735_BLACK else ST7735_BLUE)
    \<and> water_temp_color x =
        (if 100 \<le> valof x then ST7735_RED else if 90 \<le> valof x then ST7735_ORANGE
         else if 50 \<le> valof x then ST7735_BLACK else ST7735_BLUE)
    \<and> oil_press_color x = (if 5 / 2 \<le> valof x then ST7735_RED else ST7735_BLACK))
   \<and> valof float_100 = 100
   \<and> oil_temp_color float_100 = ST7735_ORANGE
   \<and> cell_oil_temp (d\<lparr>oil_temp := float_100\<rparr>) = Inr (''100'', ST7735_ORANGE)
   \<and> \<bar>valof float_99_999 - 99999 / 1000\<bar> \<le> 1 / 2 ^ 18
   \<and> oil_temp_color float_99_999 = ST7735_BLACK
   \<and> cell_oil_temp (d\<lparr>oil_temp := float_99_999\<rparr>) = Inr (''100'', ST7735_BLACK)
   \<and> valof float_115 = 115
   \<and> oil_temp_color float_115 = ST7735_RED
   \<and> cell_oil_temp (d\<lparr>oil_temp := float_115\<rparr>) = Inr (''115'', ST7735_RED)
   \<and> valof float_50 = 50 \<and> valof float_90 = 90 \<and> valof float_2_5 = 5 / 2
   \<and> oil_temp_color float_50 = ST7735_BLACK
   \<and> water_temp_color float_50 = ST7735_BLACK
   \<and> water_temp_color float_90 = ST7735_ORANGE
   \<and> water_temp_color float_100 = ST7735_RED
   \<and> oil_press_color float_2_5 = ST7735_RED
   \<and> distinct [ST7735_BLUE, ST7735_BLACK, ST7735_ORANGE, ST7735_RED]"
proof (intro conjI impI)
  assume fin: "\<not> isnan x \<and> \<not> isinf x"
  show "oil_temp_color x =
        (if 115 \<le> valof x then ST7735_RED else if 100 \<le> valof x then ST7735_ORANGE
         else if 50 \<le> valof x then ST7735_BLACK else ST7735_BLUE)"
    using fin by (simp add: ladder float_ge_finite)
  show "water_temp_color x =
        (if 100 \<le> valof x then ST7735_RED else if 90 \<le> valof x then ST7735_ORANGE
         else if 50 \<le> valof x then ST7735_BLACK else ST7735_BLUE)"
    using fin by (simp add: ladder float_ge_finite)
  show "oil_press_color x = (if 5 / 2 \<le> valof x then ST7735_RED else ST7735_BLACK)"
    using fin by (simp add: ladder float_ge_finite)
next
  show "valof float_100 = 100" and "valof float_115 = 115"
    and "valof float_50 = 50" and "valof float_90 = 90" and "valof float_2_5 = 5 / 2"
    by (simp_all add: sample_valof)
  show "\<bar>valof float_99_999 - 99999 / 1000\<bar> \<le> 1 / 2 ^ 18"
    by (rule sample_nearest)
  show "oil_temp_color float_100 = ST7735_ORANGE"
    and "oil_temp_color float_99_999 = ST7735_BLACK"
    and "oil_temp_color float_115 = ST7735_RED"
    and "oil_temp_color float_50 = ST7735_BLACK"
    and "water_temp_color float_50 = ST7735_BLACK"
    and "water_temp_color float_90 = ST7735_ORANGE"
    and "water_temp_color float_100 = ST7735_RED"
    and "oil_press_color float_2_5 = ST7735_RED"
    by (simp_all add: sample_color)
  show "cell_oil_temp (d\<lparr>oil_temp := float_100\<rparr>) = Inr (''100'', ST7735_ORANGE)"
    and "cell_oil_temp (d\<lparr>oil_temp := float_99_999\<rparr>) = Inr (''100'', ST7735_BLACK)"
    and "cell_oil_temp (d\<lparr>oil_temp := float_115\<rparr>) = Inr (''115'', ST7735_RED)"
    by (simp_all add: cell_oil_temp_def sample_cell)
  show "distinct [ST7735_BLUE, ST7735_BLACK, ST7735_ORANGE, ST7735_RED]"
    by (simp add: color_defs)
qed

theorem threshold_bands_witness:
  "\<not> isnan float_85 \<and> \<not> isinf float_85 \<and> valof float_85 = 85
   \<and> oil_temp_color float_85 = ST7735_BLACK
   \<and> water_temp_color float_85 = ST7735_BLACK
   \<and> oil_press_color float_85 = ST7735_RED"
  using threshold_bands [of float_85] by (simp add: sample_finite sample_valof)

text \<open>
  C4 (as amended). For the readings \<open>oil_temp = 120\<close>, \<open>oil_press = 1.0\<close>,
  \<open>water_temp = 85\<close>, \<open>boost = NaN\<close>, \<open>rpm = 2000\<close>, \<open>volt = 12.1\<close>, one frame of
  \<open>draw_cells\<close> renders: OIL \<open>120\<close> on red (120 is at least 115), the unlabelled pressure
  cell \<open>1.0\<close> on black, WATER \<open> 85\<close> (padded to three characters) on black, BOOST \<open>ERR\<close>
  on red, RPM \<open>2000\<close> on black, VOLT \<open>12.1\<close> on black; whatever the cache held before, a
  background is filled exactly where the new colour differs from the cached one.
\<close>

theorem scenario_frame:
  "cell_oil_temp scenario = Inr (''120'', ST7735_RED)
   \<and> cell_oil_press scenario = Inr (''1.0'', ST7735_BLACK)
   \<and> cell_water_temp scenario = Inr ('' 85'', ST7735_BLACK)
   \<and> cell_boost scenario = Inr (''ERR'', ST7735_RED)
   \<and> cell_rpm scenario = Inr (''2000'', ST7735_BLACK)
   \<and> cell_volt scenario = Inr (''12.1'', ST7735_BLACK)
   \<and> valof (oil_temp scenario) = 120 \<and> valof (oil_press scenario) = 1
   \<and> valof (water_temp scenario) = 85 \<and> isnan (boost scenario)
   \<and> valof (rpm scenario) = 2000 \<and> \<bar>valof (volt scenario) - 121 / 10\<bar> \<le> 1 / 2 ^ 21
   \<and> draw_cells scenario \<lparr>bg_cache = [c1, c2, c3, c4, c5, c6], tft = t\<rparr> =
       Inr \<lparr>bg_cache = [ST7735_RED, ST7735_BLACK, ST7735_BLACK,
                         ST7735_RED, ST7735_BLACK, ST7735_BLACK],
            tft = t
              @ (if ST7735_RED \<noteq> c1 then [FillRect 0 0 64 55 ST7735_RED] else [])
              @ draw_text UNIT_DEG_C ''120'' ''OIL'' ST7735_RED 0 0
              @ (if ST7735_BLACK \<noteq> c2 then [FillRect 64 0 64 55 ST7735_BLACK] else [])
              @ draw_text UNIT_BAR ''1.0'' [] ST7735_BLACK 1 0
              @ (if ST7735_BLACK \<noteq> c3 then [FillRect 0 55 64 50 ST7735_BLACK] else [])
              @ draw_text UNIT_DEG_C '' 85'' ''WATER'' ST7735_BLACK 0 1
              @ (if ST7735_RED \<noteq> c4 then [FillRect 64 55 64 50 ST7735_RED] else [])
              @ draw_text UNIT_BAR ''ERR'' ''BOOST'' ST7735_RED 1 1
              @ (if ST7735_BLACK \<noteq> c5 then [FillRect 0 105 64 55 ST7735_BLACK] else [])
              @ draw_text [] ''2000'' ''RPM'' ST7735_BLACK 0 2
              @ (if ST7735_BLACK \<noteq> c6 then [FillRect 64 105 64 55 ST7735_BLACK] else [])
              @ draw_text ''V'' ''12.1'' ''VOLT'' ST7735_BLACK 1 2\<rparr>"
proof -
  have "valof (oil_temp scenario) = 120" "valof (oil_press scenario) = 1"
    "valof (water_temp scenario) = 85" "isnan (boost scenario)"
    "valof (rpm scenario) = 2000" "\<bar>valof (volt scenario) - 121 / 10\<bar> \<le> 1 / 2 ^ 21"
    by (simp_all add: scenario_def sample_valof isnan_NAN)
  then show ?thesis
    using cells_scenario
      draw_cells_run [OF cells_scenario, of c1 c2 c3 c4 c5 c6 t]
    by (simp only: simp_thms)
qed

theorem scenario_frame_witness:
  "draw_cells scenario (screen sketch_init) =
       Inr \<lparr>bg_cache = [ST7735_RED, ST7735_BLACK, ST7735_BLACK,
                         ST7735_RED, ST7735_BLACK, ST7735_BLACK],
            tft = FillRect 0 0 64 55 ST7735_RED
              # draw_text UNIT_DEG_C ''120'' ''OIL'' ST7735_RED 0 0
              @ draw_text UNIT_BAR ''1.0'' [] ST7735_BLACK 1 0
              @ draw_text UNIT_DEG_C '' 85'' ''WATER'' ST7735_BLACK 0 1
              @ FillRect 64 55 64 50 ST7735_RED
              # draw_text UNIT_BAR ''ERR'' ''BOOST'' ST7735_RED 1 1
              @ draw_text [] ''2000'' ''RPM'' ST7735_BLACK 0 2
              @ draw_text ''V'' ''12.1'' ''VOLT'' ST7735_BLACK 1 2\<rparr>"
  using scenario_frame [of ST7735_BLACK ST7735_BLACK ST7735_BLACK ST7735_BLACK
      ST7735_BLACK ST7735_BLACK "[]"]
  by (simp add: sketch_init_def bg_cache_init_def color_defs)

theorem scenario_not_as_claimed:
  "cell_oil_temp scenario = Inr (''120'', ST7735_RED)
   \<and> ST7735_RED \<noteq> ST7735_ORANGE
   \<and> cell_water_temp scenario = Inr ('' 85'', ST7735_BLACK)
   \<and> '' 85'' \<noteq> ''85''
   \<and> then_do (cell_oil_temp scenario)
        (\<lambda>(buf, color). draw_cell UNIT_DEG_C buf ''OIL'' color 0 0 (screen sketch_init))
      = Inr \<lparr>bg_cache = [ST7735_RED, ST7735_BLACK, ST7735_BLACK,
                           ST7735_BLACK, ST7735_BLACK, ST7735_BLACK],
              tft = FillRect 0 0 64 55 ST7735_RED
                # draw_text UNIT_DEG_C ''120'' ''OIL'' ST7735_RED 0 0\<rparr>"
  by (simp add: cells_scenario then_do_def sketch_init_def bg_cache_init_def draw_cell_slot
      color_defs)

text \<open>
  Every outcome of a block: when the text fits the buffer, \<open>ERR\<close> on red exactly for a
  NaN or a text that is not as long as the field is wide; a fault when it does not fit.
\<close>

lemma format_cell_rule:
  "format_cell w p thr x =
     (if length (format_f w p x) < BUF_SIZE
      then Inr (if length (format_f w p x) \<noteq> w \<or> isnan x then (''ERR'', ST7735_RED)
                else (format_f w p x, thr x))
      else Inl BufferOverflow)"
  by (simp add: format_cell_fits format_cell_overflow)

text \<open>
  C1 (the code departs from the claim). For every reading whose formatted text fits
  \<^verbatim>\<open>char buf[10]\<close>, the cell is \<open>ERR\<close> on red exactly when the reading is a NaN or the
  text is not as long as the field is wide, and it keeps the formatted text and the
  threshold colour otherwise. A text of ten or more characters does not fit: at
  \<open>oil_temp = 1e30\<close> the conversion \<open>%3.0f\<close> produces 31 characters, the first \<open>sprintf\<close>
  of the block writes far past the buffer, and the block never gets to test the length
  and to replace the text by \<open>ERR\<close>.
\<close>

theorem format_cell_outcomes:
  "format_cell w p thr x =
     (if length (format_f w p x) < BUF_SIZE
      then Inr (if length (format_f w p x) \<noteq> w \<or> isnan x then (''ERR'', ST7735_RED)
                else (format_f w p x, thr x))
      else Inl BufferOverflow)
   \<and> \<bar>valof float_1e30 - 10 ^ 30\<bar> \<le> 2 ^ 75
   \<and> format_f 3 0 float_1e30 = ''1000000015047466219876688855040''
   \<and> length (format_f 3 0 float_1e30) = 31
   \<and> \<not> length (format_f 3 0 float_1e30) < BUF_SIZE
   \<and> cell_oil_temp (d\<lparr>oil_temp := float_1e30\<rparr>) = Inl BufferOverflow"
  using sample_nearest(3) format_cell_rule [of w p thr x]
  by (simp add: sample_format BUF_SIZE_def cell_oil_temp_def overflow_cell)

theorem format_cell_outcomes_witness:
  "draw_cells (Values_empty\<lparr>oil_temp := float_1e30\<rparr>) (screen sketch_init)
     = Inl BufferOverflow"
  using format_cell_outcomes [of 3 0 oil_temp_color float_1e30 Values_empty]
  by (simp add: draw_cells_def then_do_def)

lemma rpm_overflow_cell: "format_cell 4 0 thr float_1e30 = Inl BufferOverflow"
proof -
  have "format_f 4 0 float_1e30 = ''1000000015047466219876688855040''"
    by (simp add: format_f_def sample_finite sample_sign sample_ratio fixed_def
        round_half_even_def Let_def digits_small digits_large digit_char_def)
  then show ?thesis
    by (simp add: format_cell_overflow BUF_SIZE_def)
qed

text \<open>
  C6 (the code departs from the claim). Two sets of readings that differ in \<open>rpm\<close> only:
  with \<open>rpm = 2000\<close> the frame completes and renders all six cells; with \<open>rpm = 1e30\<close>
  the \<open>rpm\<close> block overflows \<open>buf\<close> and the frame has no defined outcome, so the VOLT
  cell, whose reading did not change, is not rendered as in the other run. When no block
  overflows, each cell's driver calls depend on its own reading and its own cache slot
  only (\<open>draw_cells_run\<close>).
\<close>

theorem overflow_reaches_other_cells:
  "oil_temp (scenario\<lparr>rpm := float_1e30\<rparr>) = oil_temp scenario
   \<and> oil_press (scenario\<lparr>rpm := float_1e30\<rparr>) = oil_press scenario
   \<and> water_temp (scenario\<lparr>rpm := float_1e30\<rparr>) = water_temp scenario
   \<and> boost (scenario\<lparr>rpm := float_1e30\<rparr>) = boost scenario
   \<and> volt (scenario\<lparr>rpm := float_1e30\<rparr>) = volt scenario
   \<and> draw_cells (scenario\<lparr>rpm := float_1e30\<rparr>) (screen sketch_init) = Inl BufferOverflow
   \<and> (\<exists>s. draw_cells scenario (screen sketch_init) = Inr s
          \<and> Print ''VOLT'' \<in> set (tft s) \<and> Print ''12.1'' \<in> set (tft s))"
proof -
  have cells:
    "cell_oil_temp (scenario\<lparr>rpm := float_1e30\<rparr>) = Inr (''120'', ST7735_RED)"
    "cell_oil_press (scenario\<lparr>rpm := float_1e30\<rparr>) = Inr (''1.0'', ST7735_BLACK)"
    "cell_water_temp (scenario\<lparr>rpm := float_1e30\<rparr>) = Inr ('' 85'', ST7735_BLACK)"
    "cell_boost (scenario\<lparr>rpm := float_1e30\<rparr>) = Inr (''ERR'', ST7735_RED)"
    "cell_rpm (scenario\<lparr>rpm := float_1e30\<rparr>) = Inl BufferOverflow"
    using cells_scenario
    by (simp_all add: cell_oil_temp_def cell_oil_press_def cell_water_temp_def cell_boost_def
        cell_rpm_def rpm_overflow_cell)
  have "draw_cells (scenario\<lparr>rpm := float_1e30\<rparr>) (screen sketch_init) = Inl BufferOverflow"
    unfolding draw_cells_def cells then_do_def sketch_init_def bg_cache_init_def
    by (simp only: sum.case prod.case draw_cell_slot state.simps sketch.simps)
  moreover have "\<exists>s. draw_cells scenario (screen sketch_init) = Inr s
          \<and> Print ''VOLT'' \<in> set (tft s) \<and> Print ''12.1'' \<in> set (tft s)"
    unfolding sketch_init_def bg_cache_init_def
    by (simp add: draw_cells_run [OF cells_scenario] draw_text_def)
  ultimately show ?thesis by simp
qed

theorem overflow_reaches_other_cells_witness:
  "draw_cells (scenario\<lparr>rpm := float_1e30\<rparr>) (screen sketch_init)
     \<noteq> draw_cells scenario (screen sketch_init)"
  using overflow_reaches_other_cells by auto

section \<open>The first five frames\<close>

lemma update_data_warm_up: "c < 5 \<Longrightarrow> update_data waveform (d, c) = (d, c + 1)"
  by (simp add: update_data_def)

lemma loop_warm_up:
  assumes "c < 5"
  shows "loop waveform \<lparr>data = Values_empty, counter = c,
                         screen = \<lparr>bg_cache = [c1, c2, c3, c4, c5, c6], tft = t\<rparr>\<rparr> =
     Inr \<lparr>data = Values_empty, counter = c + 1,
          screen = \<lparr>bg_cache = [ST7735_RED, ST7735_RED, ST7735_RED,
                                ST7735_RED, ST7735_RED, ST7735_RED],
            tft = t
              @ (if ST7735_RED \<noteq> c1 then [FillRect 0 0 64 55 ST7735_RED] else [])
              @ draw_text UNIT_DEG_C ''ERR'' ''OIL'' ST7735_RED 0 0
              @ (if ST7735_RED \<noteq> c2 then [FillRect 64 0 64 55 ST7735_RED] else [])
              @ draw_text UNIT_BAR ''ERR'' [] ST7735_RED 1 0
              @ (if ST7735_RED \<noteq> c3 then [FillRect 0 55 64 50 ST7735_RED] else [])
              @ draw_text UNIT_DEG_C ''ERR'' ''WATER'' ST7735_RED 0 1
              @ (if ST7735_RED \<noteq> c4 then [FillRect 64 55 64 50 ST7735_RED] else [])
              @ draw_text UNIT_BAR ''ERR'' ''BOOST'' ST7735_RED 1 1
              @ (if ST7735_RED \<noteq> c5 then [FillRect 0 105 64 55 ST7735_RED] else [])
              @ draw_text [] ''ERR'' ''RPM'' ST7735_RED 0 2
              @ (if ST7735_RED \<noteq> c6 then [FillRect 64 105 64 55 ST7735_RED] else [])
              @ draw_text ''V'' ''ERR'' ''VOLT'' ST7735_RED 1 2\<rparr>\<rparr>"
  unfolding loop_def
  by (simp add: update_data_warm_up [OF assms] draw_cells_run [OF cells_empty] then_do_def)

lemma counter_warm_up: "n < 4 \<Longrightarrow> (of_nat (Suc n) :: 32 word) < 5"
proof -
  assume "n < 4"
  then have "n \<in> {0, 1, 2, 3}" by simp arith
  then show ?thesis by auto
qed

lemma concat_replicate_Suc_end: "concat (replicate (Suc n) xs) = concat (replicate n xs) @ xs"
  by (induction n) simp_all

lemma frames_warm_up:
  assumes E: "E = draw_text UNIT_DEG_C ''ERR'' ''OIL'' ST7735_RED 0 0
                      @ draw_text UNIT_BAR ''ERR'' [] ST7735_RED 1 0
                      @ draw_text UNIT_DEG_C ''ERR'' ''WATER'' ST7735_RED 0 1
                      @ draw_text UNIT_BAR ''ERR'' ''BOOST'' ST7735_RED 1 1
                      @ draw_text [] ''ERR'' ''RPM'' ST7735_RED 0 2
                      @ draw_text ''V'' ''ERR'' ''VOLT'' ST7735_RED 1 2"
    and F: "F = FillRect 0 0 64 55 ST7735_RED
                      # draw_text UNIT_DEG_C ''ERR'' ''OIL'' ST7735_RED 0 0
                      @ FillRect 64 0 64 55 ST7735_RED
                      # draw_text UNIT_BAR ''ERR'' [] ST7735_RED 1 0
                      @ FillRect 0 55 64 50 ST7735_RED
                      # draw_text UNIT_DEG_C ''ERR'' ''WATER'' ST7735_RED 0 1
                      @ FillRect 64 55 64 50 ST7735_RED
                      # draw_text UNIT_BAR ''ERR'' ''BOOST'' ST7735_RED 1 1
                      @ FillRect 0 105 64 55 ST7735_RED
                      # draw_text [] ''ERR'' ''RPM'' ST7735_RED 0 2
                      @ FillRect 64 105 64 55 ST7735_RED
                      # draw_text ''V'' ''ERR'' ''VOLT'' ST7735_RED 1 2"
    and n: "n < 5"
  shows "frames waveform (Suc n) sketch_init =
        Inr \<lparr>data = Values_empty, counter = of_nat (Suc n),
             screen = \<lparr>bg_cache = [ST7735_RED, ST7735_RED, ST7735_RED,
                                   ST7735_RED, ST7735_RED, ST7735_RED],
               tft = F @ concat (replicate n E)\<rparr>\<rparr>"
  using n
proof (induction n)
  case 0
  have "(0 :: 32 word) < 5" by simp
  from loop_warm_up [OF this, of waveform ST7735_BLACK ST7735_BLACK ST7735_BLACK
      ST7735_BLACK ST7735_BLACK ST7735_BLACK "[]"]
  show ?case
    by (simp add: then_do_def sketch_init_def bg_cache_init_def color_defs F)
next
  case (Suc n)
  then have n: "n < 4" by simp
  then have "n < 5" by simp
  note IH = Suc.IH [OF this]
  have c: "(of_nat (Suc n) :: 32 word) < 5"
    using n by (rule counter_warm_up)
  have step: "loop waveform \<lparr>data = Values_empty, counter = of_nat (Suc n),
                 screen = \<lparr>bg_cache = [ST7735_RED, ST7735_RED, ST7735_RED,
                                       ST7735_RED, ST7735_RED, ST7735_RED], tft = t\<rparr>\<rparr> =
       Inr \<lparr>data = Values_empty, counter = of_nat (Suc (Suc n)),
             screen = \<lparr>bg_cache = [ST7735_RED, ST7735_RED, ST7735_RED,
                                   ST7735_RED, ST7735_RED, ST7735_RED], tft = t @ E\<rparr>\<rparr>" for t
    using loop_warm_up [OF c, of waveform ST7735_RED ST7735_RED ST7735_RED
        ST7735_RED ST7735_RED ST7735_RED t]
    by (simp add: E)
  have "frames waveform (Suc (Suc n)) sketch_init
          = then_do (frames waveform (Suc n) sketch_init) (loop waveform)"
    by (rule frames.simps(2))
  also have "\<dots> = loop waveform \<lparr>data = Values_empty, counter = of_nat (Suc n),
                 screen = \<lparr>bg_cache = [ST7735_RED, ST7735_RED, ST7735_RED,
                                       ST7735_RED, ST7735_RED, ST7735_RED],
                            tft = F @ concat (replicate n E)\<rparr>\<rparr>"
    by (simp only: IH then_do_def sum.case)
  also have "\<dots> = Inr \<lparr>data = Values_empty, counter = of_nat (Suc (Suc n)),
             screen = \<lparr>bg_cache = [ST7735_RED, ST7735_RED, ST7735_RED,
                                   ST7735_RED, ST7735_RED, ST7735_RED],
                        tft = (F @ concat (replicate n E)) @ E\<rparr>\<rparr>"
    by (rule step)
  finally show ?case
    by (simp only: concat_replicate_Suc_end append_assoc)
qed

text \<open>
  C10. During its first five invocations \<open>update_data\<close> only increments its counter and
  leaves the readings as they are, and the readings start as NaN. So in each of the
  first five frames all six cells are drawn with the text \<open>ERR\<close> on red: the first frame
  fills the six backgrounds red, the next four draw the texts only.
\<close>

theorem first_five_frames:
  "(\<forall>c d. c < 5 \<longrightarrow> update_data waveform (d, c) = (d, c + 1))
   \<and> cell_oil_temp Values_empty = Inr (''ERR'', ST7735_RED)
   \<and> cell_oil_press Values_empty = Inr (''ERR'', ST7735_RED)
   \<and> cell_water_temp Values_empty = Inr (''ERR'', ST7735_RED)
   \<and> cell_boost Values_empty = Inr (''ERR'', ST7735_RED)
   \<and> cell_rpm Values_empty = Inr (''ERR'', ST7735_RED)
   \<and> cell_volt Values_empty = Inr (''ERR'', ST7735_RED)
   \<and> (\<forall>n<5. frames waveform (Suc n) sketch_init =
        Inr \<lparr>data = Values_empty, counter = of_nat (Suc n),
             screen = \<lparr>bg_cache = [ST7735_RED, ST7735_RED, ST7735_RED,
                                   ST7735_RED, ST7735_RED, ST7735_RED],
               tft = (FillRect 0 0 64 55 ST7735_RED
                      # draw_text UNIT_DEG_C ''ERR'' ''OIL'' ST7735_RED 0 0
                      @ FillRect 64 0 64 55 ST7735_RED
                      # draw_text UNIT_BAR ''ERR'' [] ST7735_RED 1 0
                      @ FillRect 0 55 64 50 ST7735_RED
                      # draw_text UNIT_DEG_C ''ERR'' ''WATER'' ST7735_RED 0 1
                      @ FillRect 64 55 64 50 ST7735_RED
                      # draw_text UNIT_BAR ''ERR'' ''BOOST'' ST7735_RED 1 1
                      @ FillRect 0 105 64 55 ST7735_RED
                      # draw_text [] ''ERR'' ''RPM'' ST7735_RED 0 2
                      @ FillRect 64 105 64 55 ST7735_RED
                      # draw_text ''V'' ''ERR'' ''VOLT'' ST7735_RED 1 2)
                 @ concat (replicate n
                     (draw_text UNIT_DEG_C ''ERR'' ''OIL'' ST7735_RED 0 0
                      @ draw_text UNIT_BAR ''ERR'' [] ST7735_RED 1 0
                      @ draw_text UNIT_DEG_C ''ERR'' ''WATER'' ST7735_RED 0 1
                      @ draw_text UNIT_BAR ''ERR'' ''BOOST'' ST7735_RED 1 1
                      @ draw_text [] ''ERR'' ''RPM'' ST7735_RED 0 2
                      @ draw_text ''V'' ''ERR'' ''VOLT'' ST7735_RED 1 2))\<rparr>\<rparr>)"
proof (intro conjI allI impI)
  fix c :: "32 word" and d :: Values
  assume "c < 5"
  then show "update_data waveform (d, c) = (d, c + 1)"
    by (rule update_data_warm_up)
next
  fix n :: nat
  assume "n < 5"
  from frames_warm_up [OF refl refl this]
  show "frames waveform (Suc n) sketch_init =
        Inr \<lparr>data = Values_empty, counter = of_nat (Suc n),
             screen = \<lparr>bg_cache = [ST7735_RED, ST7735_RED, ST7735_RED,
                                   ST7735_RED, ST7735_RED, ST7735_RED],
               tft = (FillRect 0 0 64 55 ST7735_RED
                      # draw_text UNIT_DEG_C ''ERR'' ''OIL'' ST7735_RED 0 0
                      @ FillRect 64 0 64 55 ST7735_RED
                      # draw_text UNIT_BAR ''ERR'' [] ST7735_RED 1 0
                      @ FillRect 0 55 64 50 ST7735_RED
                      # draw_text UNIT_DEG_C ''ERR'' ''WATER'' ST7735_RED 0 1
                      @ FillRect 64 55 64 50 ST7735_RED
                      # draw_text UNIT_BAR ''ERR'' ''BOOST'' ST7735_RED 1 1
                      @ FillRect 0 105 64 55 ST7735_RED
                      # draw_text [] ''ERR'' ''RPM'' ST7735_RED 0 2
                      @ FillRect 64 105 64 55 ST7735_RED
                      # draw_text ''V'' ''ERR'' ''VOLT'' ST7735_RED 1 2)
                 @ concat (replicate n
                     (draw_text UNIT_DEG_C ''ERR'' ''OIL'' ST7735_RED 0 0
                      @ draw_text UNIT_BAR ''ERR'' [] ST7735_RED 1 0
                      @ draw_text UNIT_DEG_C ''ERR'' ''WATER'' ST7735_RED 0 1
                      @ draw_text UNIT_BAR ''ERR'' ''BOOST'' ST7735_RED 1 1
                      @ draw_text [] ''ERR'' ''RPM'' ST7735_RED 0 2
                      @ draw_text ''V'' ''ERR'' ''VOLT'' ST7735_RED 1 2))\<rparr>\<rparr>" .
qed (simp_all add: cells_empty)

theorem first_five_frames_witness:
  "(4 :: 32 word) < 5
   \<and> update_data (\<lambda>c d. scenario) (Values_empty, 4) = (Values_empty, 5)
   \<and> (4 :: nat) < 5
   \<and> map_sum id data (frames (\<lambda>c d. scenario) (Suc 4) sketch_init) = Inr Values_empty
   \<and> map_sum id counter (frames (\<lambda>c d. scenario) (Suc 4) sketch_init) = Inr 5
   \<and> map_sum id (\<lambda>m. bg_cache (screen m)) (frames (\<lambda>c d. scenario) (Suc 4) sketch_init)
       = Inr [ST7735_RED, ST7735_RED, ST7735_RED, ST7735_RED, ST7735_RED, ST7735_RED]"
proof -
  note T = first_five_frames [of "\<lambda>c d. scenario"]
  have c: "(4 :: 32 word) < 5" and n: "(4 :: nat) < 5"
    by simp_all
  have "update_data (\<lambda>c d. scenario) (Values_empty, 4) = (Values_empty, 4 + 1)"
    using T [THEN conjunct1, rule_format, OF c] .
  moreover note T [THEN conjunct2, THEN conjunct2, THEN conjunct2, THEN conjunct2,
      THEN conjunct2, THEN conjunct2, THEN conjunct2, rule_format, OF n]
  ultimately show ?thesis
    by simp
qed

end
